theory Spec2Isabelle
  imports Main
begin

section \<open>Python strings\<close>

text \<open>
  A Python \<open>str\<close> is modelled as a HOL \<open>string\<close>; a \<open>char\<close> stands for a code point
  below 256. Whitespace is what \<open>str.isspace\<close>, \<open>str.strip\<close> and the pattern \<open>\s\<close>
  accept in that range. \<open>upper\<close> and \<open>lower\<close> act on the ASCII letters only: every test
  the program makes on an upper- or lower-cased string looks for ASCII text, and no code
  point below 256 other than an ASCII letter maps to one of the letters looked for.
\<close>

definition sq :: char where
  "sq = CHR 0x27"

definition dq :: char where
  "dq = CHR 0x22"

definition newline :: char where
  "newline = CHR 0x0A"

definition py_space_chars :: string where
  "py_space_chars = [CHR 0x09, CHR 0x0A, CHR 0x0B, CHR 0x0C, CHR 0x0D, CHR 0x1C, CHR 0x1D,
     CHR 0x1E, CHR 0x1F, CHR 0x20, CHR 0x85, CHR 0xA0]"

definition isspace :: "char \<Rightarrow> bool" where
  "isspace c = (c \<in> set py_space_chars)"

definition lower_letters :: string where
  "lower_letters = ''abcdefghijklmnopqrstuvwxyz''"

definition upper_letters :: string where
  "upper_letters = ''ABCDEFGHIJKLMNOPQRSTUVWXYZ''"

definition upper_char :: "char \<Rightarrow> char" where
  "upper_char c = (case map_of (zip lower_letters upper_letters) c of Some u \<Rightarrow> u | None \<Rightarrow> c)"

definition lower_char :: "char \<Rightarrow> char" where
  "lower_char c = (case map_of (zip upper_letters lower_letters) c of Some l \<Rightarrow> l | None \<Rightarrow> c)"

definition py_upper :: "string \<Rightarrow> string" where
  "py_upper s = map upper_char s"

definition py_lower :: "string \<Rightarrow> string" where
  "py_lower s = map lower_char s"

text \<open>\<open>s.strip()\<close> and \<open>s.strip(chars)\<close>.\<close>

definition py_strip :: "string \<Rightarrow> string" where
  "py_strip s = rev (dropWhile isspace (rev (dropWhile isspace s)))"

definition py_strip_chars :: "string \<Rightarrow> string \<Rightarrow> string" where
  "py_strip_chars cs s =
     rev (dropWhile (\<lambda>c. c \<in> set cs) (rev (dropWhile (\<lambda>c. c \<in> set cs) s)))"

definition startswith :: "string \<Rightarrow> string \<Rightarrow> bool" where
  "startswith s p = (take (length p) s = p)"

text \<open>\<open>sub in s\<close> on strings.\<close>

fun py_in :: "string \<Rightarrow> string \<Rightarrow> bool" where
  "py_in sub [] = (sub = [])"
| "py_in sub (c # cs) = (startswith (c # cs) sub \<or> py_in sub cs)"

text \<open>
  \<open>s.replace(old, new)\<close>: every occurrence, left to right, without overlap. With an empty
  \<open>old\<close> Python puts \<open>new\<close> before every character and at the end.
\<close>

function py_replace_go :: "string \<Rightarrow> string \<Rightarrow> string \<Rightarrow> string" where
  "py_replace_go [] old new = []"
| "py_replace_go (c # cs) old new =
     (if old \<noteq> [] \<and> startswith (c # cs) old
      then new @ py_replace_go (drop (length old) (c # cs)) old new
      else c # py_replace_go cs old new)"
  by pat_completeness auto
termination
  by (relation "measure (\<lambda>(s, old, new). length s)") auto

definition py_replace :: "string \<Rightarrow> string \<Rightarrow> string \<Rightarrow> string" where
  "py_replace s old new =
     (if old = [] then new @ concat (map (\<lambda>c. c # new) s) else py_replace_go s old new)"

text \<open>
  \<open>s.split(sep)\<close> for a non-empty separator (the program only splits on \<open>','\<close> and
  \<open>'BETWEEN'\<close>); \<open>cur\<close> is the piece read so far.
\<close>

function py_split_go :: "string \<Rightarrow> string \<Rightarrow> string \<Rightarrow> string list" where
  "py_split_go sep cur [] = [cur]"
| "py_split_go sep cur (c # cs) =
     (if sep \<noteq> [] \<and> startswith (c # cs) sep
      then cur # py_split_go sep [] (drop (length sep) (c # cs))
      else py_split_go sep (cur @ [c]) cs)"
  by pat_completeness auto
termination
  by (relation "measure (\<lambda>(sep, cur, s). length s)") auto

definition py_split :: "string \<Rightarrow> string \<Rightarrow> string list" where
  "py_split s sep = py_split_go sep [] s"

text \<open>\<open>sep.join(xs)\<close>.\<close>

fun py_join :: "string \<Rightarrow> string list \<Rightarrow> string" where
  "py_join sep [] = []"
| "py_join sep [x] = x"
| "py_join sep (x # y # ys) = x @ sep @ py_join sep (y # ys)"

text \<open>
  \<open>repr\<close> of a string and \<open>str\<close> of a list of strings, which an f-string prints when a
  list reaches it.
\<close>

definition hex_digit :: "nat \<Rightarrow> char" where
  "hex_digit n = ''0123456789abcdef'' ! (n mod 16)"

definition printable :: "char \<Rightarrow> bool" where
  "printable c = (let n = (of_char c :: nat) in (32 \<le> n \<and> n < 127) \<or> (160 < n \<and> n \<noteq> 173))"

definition repr_char :: "char \<Rightarrow> char \<Rightarrow> string" where
  "repr_char quote c =
     (if c = quote \<or> c = CHR 0x5C then [CHR 0x5C, c]
      else if c = CHR 0x09 then [CHR 0x5C, CHR ''t'']
      else if c = CHR 0x0A then [CHR 0x5C, CHR ''n'']
      else if c = CHR 0x0D then [CHR 0x5C, CHR ''r'']
      else if printable c then [c]
      else [CHR 0x5C, CHR ''x'', hex_digit (of_char c div 16), hex_digit (of_char c)])"

definition py_repr :: "string \<Rightarrow> string" where
  "py_repr s =
     (let quote = (if sq \<in> set s \<and> dq \<notin> set s then dq else sq)
      in quote # concat (map (repr_char quote) s) @ [quote])"

definition py_str_list :: "string list \<Rightarrow> string" where
  "py_str_list xs = ''['' @ py_join '', '' (map py_repr xs) @ '']''"

section \<open>Regular expressions\<close>

text \<open>
  The fragment of Python's \<open>re\<close> that the program's patterns use, with the matcher's
  backtracking order: \<open>rmatch\<close> lists every way a pattern matches a prefix of the input,
  in the order in which the backtracking matcher tries them, so its first element is the
  match that \<open>re.match\<close> reports. A state is the input that is left and the groups
  captured so far. Repetition only occurs on single-character classes in the patterns.
\<close>

datatype cls =
    CSpace            \<comment> \<open>\<open>\s\<close>\<close>
  | CNonSpace         \<comment> \<open>\<open>[^\s]\<close>\<close>
  | CDot              \<comment> \<open>\<open>.\<close>\<close>
  | CAll              \<comment> \<open>\<open>.\<close> under DOTALL\<close>
  | CDigit            \<comment> \<open>\<open>\d\<close>\<close>
  | CChar char        \<comment> \<open>a literal character\<close>
  | COneOf string     \<comment> \<open>\<open>[...]\<close>\<close>
  | CNoneOf string    \<comment> \<open>\<open>[^...]\<close>\<close>

datatype regex =
    Eps
  | Fail
  | Atom cls
  | Lit string
  | Seq regex regex
  | Alt regex regex
  | Star cls          \<comment> \<open>\<open>c*\<close>, greedy\<close>
  | Plus cls          \<comment> \<open>\<open>c+\<close>, greedy\<close>
  | Lazy cls          \<comment> \<open>\<open>c*?\<close>\<close>
  | Opt regex         \<comment> \<open>\<open>(?:r)?\<close>, greedy\<close>
  | Group nat regex
  | Eol               \<comment> \<open>\<open>$\<close>\<close>

definition cat :: "regex list \<Rightarrow> regex" where
  "cat rs = foldr Seq rs Eps"

definition alts :: "regex list \<Rightarrow> regex" where
  "alts rs = foldr Alt rs Fail"

definition is_digit :: "char \<Rightarrow> bool" where
  "is_digit c = (c \<in> set ''0123456789'')"

fun cls_ok :: "bool \<Rightarrow> cls \<Rightarrow> char \<Rightarrow> bool" where
  "cls_ok ic CSpace c = isspace c"
| "cls_ok ic CNonSpace c = (\<not> isspace c)"
| "cls_ok ic CDot c = (c \<noteq> newline)"
| "cls_ok ic CAll c = True"
| "cls_ok ic CDigit c = is_digit c"
| "cls_ok ic (CChar x) c = (if ic then lower_char c = lower_char x else c = x)"
| "cls_ok ic (COneOf xs) c = (c \<in> set xs)"
| "cls_ok ic (CNoneOf xs) c = (c \<notin> set xs)"

definition lit_eq :: "bool \<Rightarrow> string \<Rightarrow> string \<Rightarrow> bool" where
  "lit_eq ic w t = (if ic then py_lower t = py_lower w else t = w)"

text \<open>What is left after a greedy or a lazy run of characters satisfying \<open>p\<close>.\<close>

fun greedy :: "(char \<Rightarrow> bool) \<Rightarrow> string \<Rightarrow> string list" where
  "greedy p [] = [[]]"
| "greedy p (x # xs) = (if p x then greedy p xs @ [x # xs] else [x # xs])"

fun greedy1 :: "(char \<Rightarrow> bool) \<Rightarrow> string \<Rightarrow> string list" where
  "greedy1 p [] = []"
| "greedy1 p (x # xs) = (if p x then greedy p xs else [])"

fun lazy :: "(char \<Rightarrow> bool) \<Rightarrow> string \<Rightarrow> string list" where
  "lazy p [] = [[]]"
| "lazy p (x # xs) = (x # xs) # (if p x then lazy p xs else [])"

type_synonym groups = "nat \<rightharpoonup> string"
type_synonym mstate = "string \<times> groups"

fun rmatch :: "bool \<Rightarrow> regex \<Rightarrow> mstate \<Rightarrow> mstate list" where
  "rmatch ic Eps st = [st]"
| "rmatch ic Fail st = []"
| "rmatch ic (Atom c) (s, g) =
     (case s of [] \<Rightarrow> [] | x # xs \<Rightarrow> if cls_ok ic c x then [(xs, g)] else [])"
| "rmatch ic (Lit w) (s, g) =
     (if length w \<le> length s \<and> lit_eq ic w (take (length w) s)
      then [(drop (length w) s, g)] else [])"
| "rmatch ic (Seq a b) st = concat (map (rmatch ic b) (rmatch ic a st))"
| "rmatch ic (Alt a b) st = rmatch ic a st @ rmatch ic b st"
| "rmatch ic (Star c) (s, g) = map (\<lambda>r. (r, g)) (greedy (cls_ok ic c) s)"
| "rmatch ic (Plus c) (s, g) = map (\<lambda>r. (r, g)) (greedy1 (cls_ok ic c) s)"
| "rmatch ic (Lazy c) (s, g) = map (\<lambda>r. (r, g)) (lazy (cls_ok ic c) s)"
| "rmatch ic (Opt a) st = rmatch ic a st @ [st]"
| "rmatch ic (Group n a) (s, g) =
     map (\<lambda>(s', g'). (s', g'(n \<mapsto> take (length s - length s') s))) (rmatch ic a (s, g))"
| "rmatch ic Eol (s, g) = (if s = [] \<or> s = [newline] then [(s, g)] else [])"

text \<open>
  A match object: the text before the match, the matched text (\<open>group(0)\<close>), the text
  after it, and the groups. Every group the program reads is outside any optional part
  of its pattern, so it is set in every match; \<open>grp\<close> reads it.
\<close>

record rematch =
  m_before :: string
  m_text :: string
  m_after :: string
  m_groups :: groups

definition grp :: "rematch \<Rightarrow> nat \<Rightarrow> string" where
  "grp m n = (case m_groups m n of Some x \<Rightarrow> x | None \<Rightarrow> [])"

definition re_at :: "bool \<Rightarrow> regex \<Rightarrow> string \<Rightarrow> string \<Rightarrow> rematch option" where
  "re_at ic r pre s =
     (case rmatch ic r (s, Map.empty) of
        [] \<Rightarrow> None
      | (s', g) # _ \<Rightarrow>
          Some \<lparr>m_before = pre, m_text = take (length s - length s') s, m_after = s',
                m_groups = g\<rparr>)"

text \<open>\<open>re.match(r, s)\<close>: a match at the start of \<open>s\<close>.\<close>

definition re_match :: "bool \<Rightarrow> regex \<Rightarrow> string \<Rightarrow> rematch option" where
  "re_match ic r s = re_at ic r [] s"

text \<open>\<open>re.search(r, s)\<close>: the first position, from the left, at which \<open>r\<close> matches.\<close>

fun re_search_from :: "bool \<Rightarrow> regex \<Rightarrow> string \<Rightarrow> string \<Rightarrow> rematch option" where
  "re_search_from ic r pre [] = re_at ic r pre []"
| "re_search_from ic r pre (c # cs) =
     (case re_at ic r pre (c # cs) of
        Some m \<Rightarrow> Some m
      | None \<Rightarrow> re_search_from ic r (pre @ [c]) cs)"

definition re_search :: "bool \<Rightarrow> regex \<Rightarrow> string \<Rightarrow> rematch option" where
  "re_search ic r s = re_search_from ic r [] s"

section \<open>The standard library's \<open>float\<close> and \<open>datetime.strptime\<close>\<close>

text \<open>
  \<open>float(s)\<close> raises \<open>ValueError\<close> unless \<open>s\<close> is a floating-point literal;
  \<open>py_float_ok s\<close> says that it returns. An underscore is allowed between two digits
  only; whitespace around the literal is dropped; the literal is an optional sign and
  then \<open>inf\<close>, \<open>infinity\<close> or \<open>nan\<close> in any case, or digits with an optional point and
  an optional exponent.
\<close>

fun underscores_ok :: "char option \<Rightarrow> string \<Rightarrow> bool" where
  "underscores_ok prev [] = (prev \<noteq> Some (CHR ''_''))"
| "underscores_ok prev (c # cs) =
     ((if c = CHR ''_'' then (case prev of Some p \<Rightarrow> is_digit p | None \<Rightarrow> False)
       else if prev = Some (CHR ''_'') then is_digit c else True)
      \<and> underscores_ok (Some c) cs)"

definition drop_sign :: "string \<Rightarrow> string" where
  "drop_sign s =
     (case s of [] \<Rightarrow> [] | c # cs \<Rightarrow> if c = CHR ''+'' \<or> c = CHR ''-'' then cs else s)"

definition is_inf_nan :: "string \<Rightarrow> bool" where
  "is_inf_nan s = (py_lower s = ''inf'' \<or> py_lower s = ''infinity'' \<or> py_lower s = ''nan'')"

definition is_exponent :: "string \<Rightarrow> bool" where
  "is_exponent r =
     (case r of
        [] \<Rightarrow> False
      | e # r' \<Rightarrow> (e = CHR ''e'' \<or> e = CHR ''E'') \<and> drop_sign r' \<noteq> [] \<and>
                 list_all is_digit (drop_sign r'))"

definition is_decimal :: "string \<Rightarrow> bool" where
  "is_decimal s =
     (let ip = takeWhile is_digit s;
          r1 = dropWhile is_digit s;
          r = (if startswith r1 ''.'' then tl r1 else []);
          fp = takeWhile is_digit r;
          r2 = (if startswith r1 ''.'' then dropWhile is_digit r else r1)
      in (ip \<noteq> [] \<or> fp \<noteq> []) \<and> (r2 = [] \<or> is_exponent r2))"

definition py_float_ok :: "string \<Rightarrow> bool" where
  "py_float_ok s =
     (underscores_ok None s \<and>
      (let t = drop_sign (py_strip (filter (\<lambda>c. c \<noteq> CHR ''_'') s))
       in is_inf_nan t \<or> is_decimal t))"

text \<open>
  \<open>datetime.strptime(s, fmt)\<close> turns \<open>fmt\<close> into a pattern (whitespace becomes \<open>\s+\<close>,
  once for a whole run of it, and no format of the program has two whitespace characters
  in a row; a directive becomes a group with the alternatives below; anything else stands
  for itself), matches it at the start of \<open>s\<close> ignoring case, and raises \<open>ValueError\<close>
  when there is no match, when text is left over, or when the fields are not a date and a
  time of day. The groups are numbered Y = 1, m = 2, d = 3, H = 4, M = 5, S = 6.
\<close>

definition directive :: "char \<Rightarrow> regex" where
  "directive d =
     (if d = CHR ''Y'' then Group 1 (cat [Atom CDigit, Atom CDigit, Atom CDigit, Atom CDigit])
      else if d = CHR ''m'' then
        Group 2 (alts [cat [Atom (CChar (CHR ''1'')), Atom (COneOf ''012'')],
                       cat [Atom (CChar (CHR ''0'')), Atom (COneOf ''123456789'')],
                       Atom (COneOf ''123456789'')])
      else if d = CHR ''d'' then
        Group 3 (alts [cat [Atom (CChar (CHR ''3'')), Atom (COneOf ''01'')],
                       cat [Atom (COneOf ''12''), Atom CDigit],
                       cat [Atom (CChar (CHR ''0'')), Atom (COneOf ''123456789'')],
                       Atom (COneOf ''123456789''),
                       cat [Atom (CChar (CHR '' '')), Atom (COneOf ''123456789'')]])
      else if d = CHR ''H'' then
        Group 4 (alts [cat [Atom (CChar (CHR ''2'')), Atom (COneOf ''0123'')],
                       cat [Atom (COneOf ''01''), Atom CDigit],
                       Atom CDigit])
      else if d = CHR ''M'' then
        Group 5 (alts [cat [Atom (COneOf ''012345''), Atom CDigit], Atom CDigit])
      else if d = CHR ''S'' then
        Group 6 (alts [cat [Atom (CChar (CHR ''6'')), Atom (COneOf ''01'')],
                       cat [Atom (COneOf ''012345''), Atom CDigit],
                       Atom CDigit])
      else Fail)"

fun format_regex :: "string \<Rightarrow> regex" where
  "format_regex [] = Eps"
| "format_regex [c] = (if isspace c then Plus CSpace else Atom (CChar c))"
| "format_regex (c # d # fs) =
     (if c = CHR ''%'' then Seq (directive d) (format_regex fs)
      else if isspace c then Seq (Plus CSpace) (format_regex (d # fs))
      else Seq (Atom (CChar c)) (format_regex (d # fs)))"

definition digit_val :: "char \<Rightarrow> nat" where
  "digit_val c = of_char c - 48"

definition py_int :: "string \<Rightarrow> nat" where
  "py_int s = foldl (\<lambda>a c. 10 * a + digit_val c) 0 (filter is_digit s)"

definition is_leap :: "nat \<Rightarrow> bool" where
  "is_leap y = (y mod 4 = 0 \<and> (y mod 100 \<noteq> 0 \<or> y mod 400 = 0))"

definition days_in_month :: "nat \<Rightarrow> nat \<Rightarrow> nat" where
  "days_in_month y m =
     (if m = 2 then (if is_leap y then 29 else 28)
      else if m = 4 \<or> m = 6 \<or> m = 9 \<or> m = 11 then 30 else 31)"

definition valid_datetime :: "nat \<Rightarrow> nat \<Rightarrow> nat \<Rightarrow> nat \<Rightarrow> nat \<Rightarrow> nat \<Rightarrow> bool" where
  "valid_datetime y m d h mi sec =
     (1 \<le> y \<and> y \<le> 9999 \<and> 1 \<le> m \<and> m \<le> 12 \<and> 1 \<le> d \<and> d \<le> days_in_month y m \<and>
      h \<le> 23 \<and> mi \<le> 59 \<and> sec \<le> 59)"

definition strptime_ok :: "string \<Rightarrow> string \<Rightarrow> bool" where
  "strptime_ok s fmt =
     (case re_match True (format_regex fmt) s of
        None \<Rightarrow> False
      | Some m \<Rightarrow>
          m_after m = [] \<and>
          valid_datetime (py_int (grp m 1)) (py_int (grp m 2)) (py_int (grp m 3))
            (py_int (grp m 4)) (py_int (grp m 5)) (py_int (grp m 6)))"

section \<open>Value Typer and Value Formatter\<close>

definition date_patterns :: "string list" where
  "date_patterns = [''%Y-%m-%d'', ''%d/%m/%Y'', ''%Y/%m/%d'', ''%d-%m-%Y'',
     ''%Y-%m-%d %H:%M:%S'', ''%d/%m/%Y %H:%M:%S'']"

text \<open>The loop over \<open>date_patterns\<close>, which returns at the first format that parses.\<close>

fun try_date_patterns :: "string \<Rightarrow> string list \<Rightarrow> bool" where
  "try_date_patterns s [] = False"
| "try_date_patterns s (p # ps) = (if strptime_ok s p then True else try_date_patterns s ps)"

definition detect_value_type :: "string option \<Rightarrow> string" where
  "detect_value_type v =
     (case v of
        None \<Rightarrow> ''null''
      | Some s \<Rightarrow>
          if py_float_ok s then ''number''
          else if try_date_patterns s date_patterns then ''date''
          else ''text'')"

text \<open>
  A condition's value is absent, one string, or a list of strings. \<open>format_value\<close>
  returns the text that reaches the clause: where the source hands a list back unchanged
  (a list tagged \<open>date\<close> with the string \<open>'\<close> among its members), the f-string that
  receives it prints it with \<open>str\<close>.
\<close>

datatype pyvalue = VNone | VStr string | VList "string list"

definition quoted :: "string \<Rightarrow> string" where
  "quoted s = sq # s @ [sq]"

definition format_value :: "pyvalue \<Rightarrow> string \<Rightarrow> string" where
  "format_value v value_type =
     (case v of
        VNone \<Rightarrow> ''NULL''
      | VStr s \<Rightarrow>
          if py_in ''to_date('' (py_lower s) then s
          else if value_type = ''number'' then
            (if s = [] then ''NULL'' else if py_float_ok s then s else quoted s)
          else if value_type = ''date'' then
            (if s = [] then ''NULL'' else if \<not> py_in [sq] s then quoted s else s)
          else quoted (py_replace s [sq] [sq, sq])
      | VList xs \<Rightarrow>
          if value_type = ''number'' then quoted (py_str_list xs)
          else if value_type = ''date'' then
            (if [sq] \<notin> set xs then quoted (py_str_list xs) else py_str_list xs)
          else quoted (py_str_list xs))"



section \<open>Conditions\<close>

text \<open>
  The dictionary of a condition. The keys \<open>original_value\<close>, \<open>is_function\<close>,
  \<open>function_name\<close> and \<open>format\<close> are present for the \<open>to_date\<close> idiom only.
\<close>

record condition =
  c_id :: nat
  c_field :: string
  c_operator :: string
  c_operator_desc :: string
  c_value :: pyvalue
  c_type :: string
  c_original_value :: "string list option"
  c_is_function :: "bool option"
  c_function_name :: "string option"
  c_format :: "string option"

definition nao :: string where
  "nao = [CHR ''n'', CHR 0xE3, CHR ''o'']"

definition contem :: string where
  "contem = ''cont'' @ [CHR 0xE9] @ ''m''"

definition operators :: "(string \<times> string) list" where
  "operators =
     [(''='', ''igual''), (''!='', ''diferente''), (''<>'', ''diferente''), (''>'', ''maior''),
      (''<'', ''menor''), (''>='', ''maior ou igual''), (''<='', ''menor ou igual''),
      (''LIKE'', contem), (''NOT LIKE'', nao @ '' '' @ contem), (''IN'', ''em''),
      (''NOT IN'', nao @ '' em''), (''BETWEEN'', ''entre''), (''NOT BETWEEN'', nao @ '' entre''),
      (''IS NULL'', CHR 0xE9 # '' nulo''), (''IS NOT NULL'', nao @ '' '' @ CHR 0xE9 # '' nulo'')]"

text \<open>\<open>operators.get(op.upper(), op)\<close>.\<close>

definition operator_desc_of :: "string \<Rightarrow> string" where
  "operator_desc_of op = (case map_of operators (py_upper op) of Some d \<Rightarrow> d | None \<Rightarrow> op)"

section \<open>Condition Matcher\<close>

text \<open>
  \<open>to_date\s*\(\s*([^,\)]+)\s*,\s*\'([^\']+)\'\s*\)\<close>, with the numbers of its two groups.
\<close>

definition to_date_call :: "nat \<Rightarrow> nat \<Rightarrow> regex list" where
  "to_date_call i j =
     [Lit ''to_date'', Star CSpace, Atom (CChar (CHR ''('')), Star CSpace,
      Group i (Plus (CNoneOf '',)'')), Star CSpace, Atom (CChar (CHR '','')), Star CSpace,
      Atom (CChar sq), Group j (Plus (CNoneOf [sq])), Atom (CChar sq), Star CSpace,
      Atom (CChar (CHR '')''))]"

definition opt_not :: regex where
  "opt_not = Opt (cat [Lit ''NOT'', Plus CSpace])"

text \<open>
  \<open>to_date_pattern\<close> of \<open>extract_conditions\<close>, which is \<open>special_between_pattern\<close> of
  \<open>parse_condition\<close> too; both are used ignoring case.
\<close>

definition to_date_pattern :: regex where
  "to_date_pattern =
     cat ([Group 1 (Plus CNonSpace), Plus CSpace, opt_not, Lit ''BETWEEN'', Plus CSpace]
          @ to_date_call 2 3 @ [Plus CSpace, Lit ''AND'', Plus CSpace] @ to_date_call 4 5)"

text \<open>\<open>([^\s]+)\s+(?:NOT\s+)?BETWEEN\s+(.*?)\s+AND\s+(.*)\<close>\<close>

definition between_pattern :: regex where
  "between_pattern =
     cat [Group 1 (Plus CNonSpace), Plus CSpace, opt_not, Lit ''BETWEEN'', Plus CSpace,
          Group 2 (Lazy CDot), Plus CSpace, Lit ''AND'', Plus CSpace, Group 3 (Star CDot)]"

text \<open>\<open>([^\s]+)\s+(?:NOT\s+)?IN\s*\((.*)\)\<close>\<close>

definition in_pattern :: regex where
  "in_pattern =
     cat [Group 1 (Plus CNonSpace), Plus CSpace, opt_not, Lit ''IN'', Star CSpace,
          Atom (CChar (CHR ''('')), Group 2 (Star CDot), Atom (CChar (CHR '')''))]"

text \<open>\<open>([^\s]+)\s+IS\s+(?:NOT\s+)?NULL\<close>\<close>

definition is_null_pattern :: regex where
  "is_null_pattern =
     cat [Group 1 (Plus CNonSpace), Plus CSpace, Lit ''IS'', Plus CSpace, opt_not, Lit ''NULL'']"

text \<open>\<open>([^\s]+)\s+(=|!=|<>|>|<|>=|<=|LIKE|NOT\s+LIKE)\s+(.*)\<close>, used ignoring case.\<close>

definition comparison_pattern :: regex where
  "comparison_pattern =
     cat [Group 1 (Plus CNonSpace), Plus CSpace,
          Group 2 (alts [Lit ''='', Lit ''!='', Lit ''<>'', Lit ''>'', Lit ''<'', Lit ''>='',
                         Lit ''<='', Lit ''LIKE'', cat [Lit ''NOT'', Plus CSpace, Lit ''LIKE'']]),
          Plus CSpace, Group 3 (Star CDot)]"

text \<open>\<open>s.split(sep)[0]\<close>\<close>

definition first_piece :: "string \<Rightarrow> string \<Rightarrow> string" where
  "first_piece s sep = (case py_split s sep of [] \<Rightarrow> [] | x # _ \<Rightarrow> x)"

text \<open>\<open>f"to_date({param}, '{format}')"\<close>\<close>

definition to_date_text :: "string \<Rightarrow> string \<Rightarrow> string" where
  "to_date_text param fmt = ''to_date('' @ param @ '', '' @ quoted fmt @ '')''"

text \<open>
  The dictionary built for the \<open>to_date\<close> idiom. \<open>extract_conditions\<close> and
  \<open>parse_condition\<close> build it with the same code; they differ in the id and in the
  text whose part before \<open>BETWEEN\<close> is searched for \<open>NOT\<close> (the matched text in the
  first, the whole fragment in the second).
\<close>

definition to_date_condition :: "nat \<Rightarrow> rematch \<Rightarrow> string \<Rightarrow> condition" where
  "to_date_condition i m text =
     (let field = py_strip (grp m 1);
          start_param = py_strip (grp m 2);
          start_format = py_strip (grp m 3);
          end_param = py_strip (grp m 4);
          end_format = py_strip (grp m 5);
          is_not_between = py_in ''NOT'' (first_piece (py_upper text) ''BETWEEN'')
      in \<lparr>c_id = i, c_field = field,
          c_operator = (if is_not_between then ''NOT BETWEEN'' else ''BETWEEN''),
          c_operator_desc = (if is_not_between then nao @ '' entre'' else ''entre''),
          c_value = VList [to_date_text start_param start_format,
                           to_date_text end_param end_format],
          c_type = ''date'',
          c_original_value = Some [start_param, end_param],
          c_is_function = Some True,
          c_function_name = Some ''to_date'',
          c_format = Some start_format\<rparr>)"

text \<open>\<open>v.strip().strip("'\"")\<close>\<close>

definition unquote :: "string \<Rightarrow> string" where
  "unquote v = py_strip_chars [sq, dq] (py_strip v)"

text \<open>A dictionary of the generic patterns, with the operator's description added.\<close>

definition plain_condition :: "nat \<Rightarrow> string \<Rightarrow> string \<Rightarrow> pyvalue \<Rightarrow> string \<Rightarrow> condition" where
  "plain_condition i field op v t =
     \<lparr>c_id = i, c_field = field, c_operator = op, c_operator_desc = operator_desc_of op,
      c_value = v, c_type = t, c_original_value = None, c_is_function = None,
      c_function_name = None, c_format = None\<rparr>"

definition between_handler :: "nat \<Rightarrow> rematch \<Rightarrow> condition" where
  "between_handler i m =
     plain_condition i (py_strip (grp m 1))
       (if py_in ''NOT'' (py_upper (m_text m)) then ''NOT BETWEEN'' else ''BETWEEN'')
       (VList [unquote (grp m 2), unquote (grp m 3)])
       (detect_value_type (Some (unquote (grp m 2))))"

definition in_handler :: "nat \<Rightarrow> rematch \<Rightarrow> condition" where
  "in_handler i m =
     plain_condition i (py_strip (grp m 1))
       (if py_in ''NOT'' (py_upper (m_text m)) then ''NOT IN'' else ''IN'')
       (VList (map unquote (py_split (grp m 2) '','')))
       (detect_value_type (Some (unquote (first_piece (grp m 2) '',''))))"

definition is_null_handler :: "nat \<Rightarrow> rematch \<Rightarrow> condition" where
  "is_null_handler i m =
     plain_condition i (py_strip (grp m 1))
       (if py_in ''NOT'' (py_upper (m_text m)) then ''IS NOT NULL'' else ''IS NULL'')
       VNone ''null''"

definition comparison_handler :: "nat \<Rightarrow> rematch \<Rightarrow> condition" where
  "comparison_handler i m =
     plain_condition i (py_strip (grp m 1)) (py_upper (py_strip (grp m 2)))
       (VStr (unquote (grp m 3)))
       (detect_value_type (Some (unquote (grp m 3))))"

text \<open>
  \<open>parse_condition\<close>: the \<open>to_date\<close> idiom first, then the four generic patterns in
  their order; only the last one is matched ignoring case. \<open>None\<close> is the fragment that
  no pattern matches.
\<close>

definition parse_condition :: "string \<Rightarrow> nat \<Rightarrow> condition option" where
  "parse_condition condition condition_id =
     (case re_match True to_date_pattern condition of
        Some m \<Rightarrow> Some (to_date_condition condition_id m condition)
      | None \<Rightarrow>
     (case re_match False between_pattern condition of
        Some m \<Rightarrow> Some (between_handler condition_id m)
      | None \<Rightarrow>
     (case re_match False in_pattern condition of
        Some m \<Rightarrow> Some (in_handler condition_id m)
      | None \<Rightarrow>
     (case re_match False is_null_pattern condition of
        Some m \<Rightarrow> Some (is_null_handler condition_id m)
      | None \<Rightarrow>
     (case re_match True comparison_pattern condition of
        Some m \<Rightarrow> Some (comparison_handler condition_id m)
      | None \<Rightarrow> None)))))"

section \<open>Clause Splitter\<close>

text \<open>
  \<open>re.split(r, s)\<close> for a pattern without groups that matches no empty text: the pieces
  between the matches, found from left to right; \<open>cur\<close> is the piece read so far.
\<close>

function re_split_go :: "bool \<Rightarrow> regex \<Rightarrow> string \<Rightarrow> string \<Rightarrow> string list" where
  "re_split_go ic r cur [] = [cur]"
| "re_split_go ic r cur (c # cs) =
     (case re_at ic r [] (c # cs) of
        None \<Rightarrow> re_split_go ic r (cur @ [c]) cs
      | Some m \<Rightarrow>
          if m_text m = [] then re_split_go ic r (cur @ [c]) cs
          else cur # re_split_go ic r [] (drop (length (m_text m)) (c # cs)))"
  by pat_completeness auto
termination
  by (relation "measure (\<lambda>(ic, r, cur, s). length s)") auto

definition re_split :: "bool \<Rightarrow> regex \<Rightarrow> string \<Rightarrow> string list" where
  "re_split ic r s = re_split_go ic r [] s"

text \<open>\<open>\sAND\s\<close> and \<open>\sOR\s\<close>\<close>

definition and_separator :: regex where
  "and_separator = cat [Atom CSpace, Lit ''AND'', Atom CSpace]"

definition or_separator :: regex where
  "or_separator = cat [Atom CSpace, Lit ''OR'', Atom CSpace]"

text \<open>
  \<open>re.sub(r'^\s*WHERE\s+', '', where_clause, flags=re.IGNORECASE)\<close>: without MULTILINE
  the pattern matches at the start of the string only, so at most one match is removed.
\<close>

definition where_prefix :: regex where
  "where_prefix = cat [Star CSpace, Lit ''WHERE'', Plus CSpace]"

definition strip_where_keyword :: "string \<Rightarrow> string" where
  "strip_where_keyword s = (case re_match True where_prefix s of None \<Rightarrow> s | Some m \<Rightarrow> m_after m)"

text \<open>
  The generic path of \<open>extract_conditions\<close>: the two nested loops, whose state is the
  list \<open>conditions\<close> and the counter \<open>condition_id\<close>.
\<close>

definition or_step :: "condition list \<times> nat \<Rightarrow> string \<Rightarrow> condition list \<times> nat" where
  "or_step st or_part =
     (let condition = py_strip or_part
      in if condition \<noteq> [] then
           (case parse_condition condition (snd st) of
              Some parsed_condition \<Rightarrow> (fst st @ [parsed_condition], snd st + 1)
            | None \<Rightarrow> st)
         else st)"

definition and_step :: "condition list \<times> nat \<Rightarrow> string \<Rightarrow> condition list \<times> nat" where
  "and_step st and_part = foldl or_step st (re_split True or_separator and_part)"

definition generic_conditions :: "string \<Rightarrow> condition list" where
  "generic_conditions where_clause =
     fst (foldl and_step ([], 0) (re_split True and_separator where_clause))"

text \<open>The connector dropped from the text that is left after the \<open>to_date\<close> idiom.\<close>

definition strip_connector :: "string \<Rightarrow> string" where
  "strip_connector remaining_clause =
     (if startswith (py_strip remaining_clause) ''AND '' then drop 4 (py_strip remaining_clause)
      else if startswith (py_strip remaining_clause) ''OR '' then drop 3 (py_strip remaining_clause)
      else remaining_clause)"

text \<open>\<open>for i, cond in enumerate(more_conditions): cond['id'] = i + 1\<close>\<close>

definition renumber :: "condition list \<Rightarrow> condition list" where
  "renumber more_conditions = map (\<lambda>(i, cond). cond\<lparr>c_id := i + 1\<rparr>) (enumerate 0 more_conditions)"

text \<open>
  \<open>extract_conditions\<close> calls itself on the text that is left once the matched idiom
  has been removed. The recursion ends because a match of \<open>to_date_pattern\<close> is a
  non-empty piece of the clause, which the facts below establish.
\<close>

lemma greedy_suffix: "r \<in> set (greedy p s) \<Longrightarrow> \<exists>w. s = w @ r"
proof (induction s)
  case Nil
  then show ?case by simp
next
  case (Cons x xs)
  show ?case
  proof (cases "r = x # xs")
    case True
    then show ?thesis by simp
  next
    case False
    with Cons.prems have "r \<in> set (greedy p xs)" by (auto split: if_splits)
    then obtain w where "xs = w @ r" using Cons.IH by blast
    then have "x # xs = (x # w) @ r" by simp
    then show ?thesis by blast
  qed
qed

lemma greedy1_suffix: "r \<in> set (greedy1 p s) \<Longrightarrow> \<exists>w. w \<noteq> [] \<and> s = w @ r"
proof (cases s)
  case Nil
  then show "r \<in> set (greedy1 p s) \<Longrightarrow> ?thesis" by simp
next
  case (Cons x xs)
  assume "r \<in> set (greedy1 p s)"
  with Cons have "r \<in> set (greedy p xs)" by (auto split: if_splits)
  then obtain w where "xs = w @ r" using greedy_suffix by blast
  with Cons have "x # w \<noteq> [] \<and> s = (x # w) @ r" by simp
  then show ?thesis by blast
qed

lemma lazy_suffix: "r \<in> set (lazy p s) \<Longrightarrow> \<exists>w. s = w @ r"
proof (induction s)
  case Nil
  then show ?case by simp
next
  case (Cons x xs)
  show ?case
  proof (cases "r = x # xs")
    case True
    then show ?thesis by simp
  next
    case False
    with Cons.prems have "r \<in> set (lazy p xs)" by (auto split: if_splits)
    then obtain w where "xs = w @ r" using Cons.IH by blast
    then have "x # xs = (x # w) @ r" by simp
    then show ?thesis by blast
  qed
qed

lemma rmatch_suffix: "(s', g') \<in> set (rmatch ic r (s, g)) \<Longrightarrow> \<exists>w. s = w @ s'"
proof (induction r arbitrary: s g s' g')
  case (Atom c)
  then show ?case by (cases s) (auto split: if_splits)
next
  case (Lit w)
  then have "s = take (length w) s @ s'" by (auto split: if_splits)
  then show ?case by blast
next
  case (Seq a b)
  from Seq.prems obtain s1 g1 where a: "(s1, g1) \<in> set (rmatch ic a (s, g))"
    and b: "(s', g') \<in> set (rmatch ic b (s1, g1))" by auto
  from Seq.IH(1) [OF a] obtain w1 where "s = w1 @ s1" by blast
  moreover from Seq.IH(2) [OF b] obtain w2 where "s1 = w2 @ s'" by blast
  ultimately have "s = (w1 @ w2) @ s'" by simp
  then show ?case by blast
next
  case (Alt a b)
  then show ?case by auto
next
  case (Star c)
  then show ?case using greedy_suffix by auto
next
  case (Plus c)
  then show ?case using greedy1_suffix by fastforce
next
  case (Lazy c)
  then show ?case using lazy_suffix by auto
next
  case (Opt a)
  then show ?case by auto
next
  case (Group n a)
  then show ?case by auto
next
  case Eol
  then show ?case by (auto split: if_splits)
qed auto

lemma re_at_Some:
  assumes "re_at ic r pre s = Some m"
  shows "s = m_text m @ m_after m \<and> m_before m = pre"
proof -
  from assms obtain s' g rest where h: "rmatch ic r (s, Map.empty) = (s', g) # rest"
    and m: "m = \<lparr>m_before = pre, m_text = take (length s - length s') s, m_after = s', m_groups = g\<rparr>"
    by (auto simp: re_at_def split: list.splits)
  from h have "(s', g) \<in> set (rmatch ic r (s, Map.empty))" by simp
  then obtain w where "s = w @ s'" using rmatch_suffix by blast
  with m show ?thesis by simp
qed

lemma re_search_from_Some:
  "re_search_from ic r pre s = Some m \<Longrightarrow> pre @ s = m_before m @ m_text m @ m_after m"
proof (induction s arbitrary: pre)
  case Nil
  then show ?case using re_at_Some [of ic r pre "[]" m] by simp
next
  case (Cons c cs)
  show ?case
  proof (cases "re_at ic r pre (c # cs)")
    case None
    with Cons.prems have "re_search_from ic r (pre @ [c]) cs = Some m" by simp
    from Cons.IH [OF this] show ?thesis by simp
  next
    case (Some m')
    with Cons.prems have "m' = m" by simp
    with Some re_at_Some [of ic r pre "c # cs" m] show ?thesis by simp
  qed
qed

lemma re_at_Plus_nonempty:
  assumes "re_at ic (Seq (Group n (Plus c)) r) pre s = Some m"
  shows "m_text m \<noteq> []"
proof -
  from assms obtain s' g rest
    where h: "rmatch ic (Seq (Group n (Plus c)) r) (s, Map.empty) = (s', g) # rest"
    and m: "m_text m = take (length s - length s') s"
    by (auto simp: re_at_def split: list.splits)
  from h have "(s', g) \<in> set (rmatch ic (Seq (Group n (Plus c)) r) (s, Map.empty))" by simp
  then obtain s1 g1 where a: "s1 \<in> set (greedy1 (cls_ok ic c) s)"
    and b: "(s', g) \<in> set (rmatch ic r (s1, g1))" by auto
  from a obtain w1 where w1: "w1 \<noteq> []" "s = w1 @ s1" using greedy1_suffix by blast
  from b obtain w2 where "s1 = w2 @ s'" using rmatch_suffix by blast
  with w1 m show ?thesis by simp
qed

lemma re_search_from_Plus_nonempty:
  "re_search_from ic (Seq (Group n (Plus c)) r) pre s = Some m \<Longrightarrow> m_text m \<noteq> []"
proof (induction s arbitrary: pre)
  case Nil
  then show ?case using re_at_Plus_nonempty by simp
next
  case (Cons x xs)
  then show ?case using re_at_Plus_nonempty by (auto split: option.splits)
qed

lemma py_replace_go_le: "old \<noteq> [] \<Longrightarrow> length (py_replace_go s old []) \<le> length s"
  by (induction s old "[] :: string" rule: py_replace_go.induct) auto

lemma py_replace_go_head:
  assumes "old \<noteq> []" "startswith s old"
  shows "length (py_replace_go s old []) < length s"
proof -
  from assms(2) have "length (take (length old) s) = length old"
    by (simp add: startswith_def)
  then have "length old \<le> length s" by simp
  with assms(1) have len: "0 < length old" "length old \<le> length s" by simp_all
  then obtain c cs where s: "s = c # cs" by (cases s) auto
  have "length (py_replace_go (drop (length old) s) old []) \<le> length s - length old"
    using py_replace_go_le [OF assms(1), of "drop (length old) s"] by simp
  with len have "length (py_replace_go (drop (length old) s) old []) < length s" by arith
  with s assms show ?thesis by simp
qed

lemma py_replace_go_less:
  "old \<noteq> [] \<Longrightarrow> s = pre @ old @ post \<Longrightarrow> length (py_replace_go s old []) < length s"
proof (induction pre arbitrary: s)
  case Nil
  then have "startswith s old" by (simp add: startswith_def)
  with Nil(1) show ?case by (rule py_replace_go_head)
next
  case (Cons a pre)
  then have s: "s = a # (pre @ old @ post)" by simp
  from Cons.IH [OF Cons.prems(1), of "pre @ old @ post"]
  have ih: "length (py_replace_go (pre @ old @ post) old []) < length (pre @ old @ post)" by simp
  show ?case
  proof (cases "startswith s old")
    case True
    with Cons.prems(1) show ?thesis by (rule py_replace_go_head)
  next
    case False
    then show ?thesis using s ih by simp
  qed
qed

lemma py_strip_le: "length (py_strip s) \<le> length s"
  unfolding py_strip_def
  by (metis length_dropWhile_le length_rev le_trans)

lemma strip_connector_le: "length (strip_connector s) \<le> length s"
  using py_strip_le [of s] by (auto simp: strip_connector_def)

lemma strip_where_keyword_le: "length (strip_where_keyword s) \<le> length s"
  using re_at_Some [of True where_prefix "[]" s]
  by (auto simp: strip_where_keyword_def re_match_def split: option.splits)

lemma to_date_pattern_Seq: "\<exists>r. to_date_pattern = Seq (Group 1 (Plus CNonSpace)) r"
  by (simp add: to_date_pattern_def cat_def)

lemma remaining_clause_shorter:
  assumes "re_search True to_date_pattern w = Some m"
  shows "length (strip_connector (py_replace w (m_text m) [])) < length w"
proof -
  obtain r where r: "to_date_pattern = Seq (Group 1 (Plus CNonSpace)) r"
    using to_date_pattern_Seq by blast
  from assms have ne: "m_text m \<noteq> []"
    using re_search_from_Plus_nonempty [of True 1 CNonSpace r "[]" w m]
    by (simp add: re_search_def r)
  from assms have "w = m_before m @ m_text m @ m_after m"
    using re_search_from_Some [of True to_date_pattern "[]" w m] by (simp add: re_search_def)
  then have "length (py_replace_go w (m_text m) []) < length w"
    using py_replace_go_less [OF ne] by blast
  then show ?thesis
    using strip_connector_le [of "py_replace w (m_text m) []"] ne by (simp add: py_replace_def)
qed

text \<open>
  \<open>extract_conditions\<close>. Ids are assigned by the generic path from 0; the conditions
  found in the text left after a \<open>to_date\<close> idiom are renumbered from 1.
\<close>

function extract_conditions :: "string \<Rightarrow> string \<Rightarrow> condition list" where
  "extract_conditions where_clause0 full_query =
     (let where_clause = strip_where_keyword where_clause0
      in case re_search True to_date_pattern where_clause of
           Some m \<Rightarrow>
             (let condition_text = m_text m;
                  remaining_clause = py_replace where_clause condition_text []
              in to_date_condition 0 m condition_text #
                 (if py_strip remaining_clause \<noteq> []
                  then renumber (extract_conditions (strip_connector remaining_clause) full_query)
                  else []))
         | None \<Rightarrow> generic_conditions where_clause)"
  by pat_completeness auto
termination
proof (relation "measure (\<lambda>(w, q). length w)")
  show "wf (measure (\<lambda>(w, q). length w))" by simp
next
  fix where_clause0 full_query :: string and where_clause m condition_text remaining_clause
  assume "where_clause = strip_where_keyword where_clause0"
    and "re_search True to_date_pattern where_clause = Some m"
    and "condition_text = m_text m"
    and "remaining_clause = py_replace where_clause condition_text []"
  then show "((strip_connector remaining_clause, full_query), (where_clause0, full_query))
      \<in> measure (\<lambda>(w, q). length w)"
    using remaining_clause_shorter [of where_clause m] strip_where_keyword_le [of where_clause0]
    by simp
qed

declare extract_conditions.simps [simp del]

section \<open>Reconstructor\<close>

definition is_function_of :: "condition \<Rightarrow> bool" where
  "is_function_of c = (case c_is_function c of Some b \<Rightarrow> b | None \<Rightarrow> False)"

definition list_of :: "pyvalue \<Rightarrow> string list option" where
  "list_of v = (case v of VList xs \<Rightarrow> Some xs | _ \<Rightarrow> None)"

text \<open>The body of the loop of \<open>construct_where_clause\<close>: the text of one condition.\<close>

definition render_condition :: "condition \<Rightarrow> string" where
  "render_condition c =
     (let field = c_field c; operator = c_operator c; v = c_value c; value_type = c_type c;
          up = py_upper operator
      in if up = ''IS NULL'' \<or> up = ''IS NOT NULL'' then field @ '' '' @ operator
         else
           (case list_of v of
              Some xs \<Rightarrow>
                if (up = ''BETWEEN'' \<or> up = ''NOT BETWEEN'') \<and> length xs = 2 then
                  (if is_function_of c
                   then field @ '' '' @ operator @ '' '' @ xs ! 0 @ '' AND '' @ xs ! 1
                   else field @ '' '' @ operator @ '' '' @ format_value (VStr (xs ! 0)) value_type
                        @ '' AND '' @ format_value (VStr (xs ! 1)) value_type)
                else if up = ''IN'' \<or> up = ''NOT IN'' then
                  field @ '' '' @ operator @ '' (''
                  @ py_join '', '' (map (\<lambda>x. format_value (VStr x) value_type) xs) @ '')''
                else field @ '' '' @ operator @ '' '' @ format_value v value_type
            | None \<Rightarrow> field @ '' '' @ operator @ '' '' @ format_value v value_type))"

definition construct_where_clause :: "condition list \<Rightarrow> string" where
  "construct_where_clause conditions = py_join '' AND '' (map render_condition conditions)"

text \<open>
  An exception, with its message. Every exception below is an \<open>Exception\<close>, which
  the handlers of the program catch.
\<close>

datatype exn = Exn string

text \<open>
  The replacement of the fallback path, \<open>re.sub(pattern, template, s)\<close>. The library
  compiles the template first, which fails on a bad escape or on a reference to a group
  that the pattern does not have; the compiled template maps a match to the text that
  replaces it. That compilation is the parameter \<open>tmpl\<close>. The matches are found from
  left to right; the two patterns of the fallback match no empty text.
\<close>

function re_sub_go :: "bool \<Rightarrow> regex \<Rightarrow> (rematch \<Rightarrow> string) \<Rightarrow> string \<Rightarrow> string" where
  "re_sub_go ic r f [] = []"
| "re_sub_go ic r f (c # cs) =
     (case re_at ic r [] (c # cs) of
        None \<Rightarrow> c # re_sub_go ic r f cs
      | Some m \<Rightarrow>
          if m_text m = [] then c # re_sub_go ic r f cs
          else f m @ re_sub_go ic r f (drop (length (m_text m)) (c # cs)))"
  by pat_completeness auto
termination
  by (relation "measure (\<lambda>(ic, r, f, s). length s)") auto

definition re_sub ::
  "(string \<Rightarrow> exn + (rematch \<Rightarrow> string)) \<Rightarrow> bool \<Rightarrow> regex \<Rightarrow> string \<Rightarrow> string \<Rightarrow> exn + string"
where
  "re_sub tmpl ic r template s =
     (case tmpl template of Inl e \<Rightarrow> Inl e | Inr f \<Rightarrow> Inr (re_sub_go ic r f s))"

text \<open>\<open>(?i)(.*)\s+WHERE\s+(.*)\<close> under DOTALL\<close>

definition where_split_pattern :: regex where
  "where_split_pattern =
     cat [Group 1 (Star CAll), Plus CSpace, Lit ''WHERE'', Plus CSpace, Group 2 (Star CAll)]"

text \<open>
  \<open>(?i)(.*\s+WHERE\s+).*?(\s+GROUP BY.*|\s+ORDER BY.*|\s+HAVING.*|\s+LIMIT.*|;|$)\<close> and
  \<open>(?i)(.*\s+WHERE\s+).*?($)\<close>
\<close>

definition where_head :: regex where
  "where_head = Group 1 (cat [Star CDot, Plus CSpace, Lit ''WHERE'', Plus CSpace])"

definition fallback_pattern :: regex where
  "fallback_pattern =
     cat [where_head, Lazy CDot,
          Group 2 (alts [cat [Plus CSpace, Lit ''GROUP BY'', Star CDot],
                         cat [Plus CSpace, Lit ''ORDER BY'', Star CDot],
                         cat [Plus CSpace, Lit ''HAVING'', Star CDot],
                         cat [Plus CSpace, Lit ''LIMIT'', Star CDot],
                         Lit '';'', Eol])]"

definition fallback_pattern2 :: regex where
  "fallback_pattern2 = cat [where_head, Lazy CDot, Group 2 Eol]"

text \<open>
  The primary path of \<open>reconstruct_sql_query\<close>, the body of its \<open>try\<close>. \<open>fmt\<close> is
  \<open>sqlparse.format(original_query, strip_comments=True)\<close>, of the library.
\<close>

definition reconstruct_primary ::
  "(string \<Rightarrow> exn + string) \<Rightarrow> string \<Rightarrow> condition list \<Rightarrow> exn + string"
where
  "reconstruct_primary fmt original_query modified_conditions =
     (case fmt original_query of
        Inl e \<Rightarrow> Inl e
      | Inr formatted_query \<Rightarrow>
          (case re_search True where_split_pattern formatted_query of
             None \<Rightarrow> Inr original_query
           | Some m \<Rightarrow>
               (let new_where_clause = construct_where_clause modified_conditions;
                    before_where = grp m 1
                in Inr (before_where @ '' WHERE '' @ new_where_clause))))"

text \<open>The fallback path, the body of the inner \<open>try\<close>.\<close>

definition reconstruct_fallback ::
  "(string \<Rightarrow> exn + (rematch \<Rightarrow> string)) \<Rightarrow> string \<Rightarrow> condition list \<Rightarrow> exn + string"
where
  "reconstruct_fallback tmpl original_query modified_conditions =
     (let new_where_clause = construct_where_clause modified_conditions;
          template = [CHR 0x5C, CHR ''1''] @ new_where_clause @ [CHR 0x5C, CHR ''2'']
      in if re_search True fallback_pattern original_query \<noteq> None
         then re_sub tmpl True fallback_pattern template original_query
         else re_sub tmpl True fallback_pattern2 template original_query)"

text \<open>
  \<open>reconstruct_sql_query\<close>: an exception of the primary path starts the fallback, and
  an exception of the fallback returns the original query. \<open>Inl\<close> would be an exception
  that leaves the function.
\<close>

definition reconstruct_sql_query ::
  "(string \<Rightarrow> exn + string) \<Rightarrow> (string \<Rightarrow> exn + (rematch \<Rightarrow> string)) \<Rightarrow>
   string \<Rightarrow> condition list \<Rightarrow> exn + string"
where
  "reconstruct_sql_query fmt tmpl original_query modified_conditions =
     (case reconstruct_primary fmt original_query modified_conditions of
        Inr reconstructed \<Rightarrow> Inr reconstructed
      | Inl e \<Rightarrow>
          (case reconstruct_fallback tmpl original_query modified_conditions of
             Inr r \<Rightarrow> Inr r
           | Inl inner_e \<Rightarrow> Inr original_query))"

section \<open>Clause Locator\<close>

text \<open>
  What \<open>sqlparse.parse\<close> returns: statements, each a list of tokens; a token is a leaf
  with its text or a group of tokens (one with the attribute \<open>tokens\<close>), and a group may
  be a \<open>Where\<close>. \<open>str\<close> of a token is the text of its leaves.
\<close>

datatype token = Leaf string | TokenList bool "token list"

fun is_where :: "token \<Rightarrow> bool" where
  "is_where (Leaf v) = False"
| "is_where (TokenList w ts) = w"

fun tokens_of :: "token \<Rightarrow> token list" where
  "tokens_of (Leaf v) = []"
| "tokens_of (TokenList w ts) = ts"

fun token_str :: "token \<Rightarrow> string" where
  "token_str (Leaf v) = v"
| "token_str (TokenList w ts) = concat (map token_str ts)"

text \<open>The nested function \<open>find_where_tokens\<close> and its loop over a list of tokens.\<close>

fun find_where_token :: "token \<Rightarrow> token list"
  and find_where_tokens :: "token list \<Rightarrow> token list" where
  "find_where_token (Leaf v) = []"
| "find_where_token (TokenList w ts) =
     (if w then [TokenList w ts] else []) @ find_where_tokens ts"
| "find_where_tokens [] = []"
| "find_where_tokens (t # ts) = find_where_token t @ find_where_tokens ts"

text \<open>
  The body of the \<open>try\<close> of \<open>parse_sql_query\<close>. \<open>fmt\<close> is
  \<open>sqlparse.format(query, strip_comments=False, reindent=False)\<close> and \<open>prs\<close> is
  \<open>sqlparse.parse\<close>, both of the library; either may raise.
\<close>

definition parse_sql_query_body ::
  "(string \<Rightarrow> exn + string) \<Rightarrow> (string \<Rightarrow> exn + token list list) \<Rightarrow> string \<Rightarrow>
   exn + condition list"
where
  "parse_sql_query_body fmt prs query =
     (case fmt query of
        Inl e \<Rightarrow> Inl e
      | Inr formatted_query \<Rightarrow>
          (case prs formatted_query of
             Inl e \<Rightarrow> Inl e
           | Inr parsed \<Rightarrow>
               (case parsed of
                  [] \<Rightarrow> Inr []
                | stmt # _ \<Rightarrow>
                    (case find_where_tokens stmt of
                       [] \<Rightarrow> Inr []
                     | where_token # _ \<Rightarrow>
                         Inr (extract_conditions
                                (concat (map token_str (drop 1 (tokens_of where_token))))
                                formatted_query)))))"

text \<open>\<open>parse_sql_query\<close>: any exception of the body is caught and gives the empty list.\<close>

definition parse_sql_query ::
  "(string \<Rightarrow> exn + string) \<Rightarrow> (string \<Rightarrow> exn + token list list) \<Rightarrow> string \<Rightarrow>
   exn + condition list"
where
  "parse_sql_query fmt prs query =
     (case parse_sql_query_body fmt prs query of Inl e \<Rightarrow> Inr [] | Inr conditions \<Rightarrow> Inr conditions)"

section \<open>Invariant of the generic path and example inputs\<close>

text \<open>The loop invariant of the generic path: the ids so far are 0 up to the counter.\<close>

definition ids_ok :: "condition list \<times> nat \<Rightarrow> bool" where
  "ids_ok st = (map c_id (fst st) = [0..<snd st])"

text \<open>A clause, two parsed statements and an edited list of conditions, used as examples.\<close>

definition example_clause :: string where
  "example_clause =
     '' col BETWEEN to_date(:a,'YYYY-MM-DD') AND to_date(:b,'YYYY') AND x >= 5 AND junk AND q = 3''"

definition example_statement :: "token list" where
  "example_statement =
     [Leaf ''SELECT'', Leaf '' '', Leaf ''*'', Leaf '' '', Leaf ''FROM'', Leaf '' '',
      TokenList False [Leaf ''t''], Leaf '' '',
      TokenList True [Leaf ''WHERE'', Leaf example_clause]]"

definition no_where_statement :: "token list" where
  "no_where_statement =
     [Leaf ''SELECT'', Leaf '' '', Leaf ''*'', Leaf '' '', Leaf ''FROM'', Leaf '' '',
      TokenList False [Leaf ''t'']]"

definition edited :: "condition list" where
  "edited = [plain_condition 0 ''a'' ''='' (VStr ''2'') ''number'']"

section \<open>Clauses of the supported shape\<close>

























section \<open>The text of the \<open>to_date\<close> idiom\<close>













section \<open>Notions used in the proofs about the matcher\<close>















section \<open>Properties of the Value Typer and the Value Formatter\<close>

lemma py_float_ok_quoted: "\<not> py_float_ok (quoted w)"
proof -
  have a: "filter (\<lambda>c. c \<noteq> CHR ''_'') (quoted w) = sq # filter (\<lambda>c. c \<noteq> CHR ''_'') w @ [sq]"
    by (simp add: quoted_def sq_def)
  have b: "py_strip (sq # u @ [sq]) = sq # u @ [sq]" for u
    by (simp add: py_strip_def isspace_def py_space_chars_def sq_def)
  have c: "\<not> is_inf_nan (sq # u)" for u
    by (simp add: is_inf_nan_def py_lower_def lower_char_def upper_letters_def
        lower_letters_def sq_def)
  have d: "\<not> is_decimal (sq # u)" for u
    by (simp add: is_decimal_def is_digit_def startswith_def sq_def)
  have e: "drop_sign (sq # u) = sq # u" for u
    by (simp add: drop_sign_def sq_def)
  show ?thesis
    unfolding py_float_ok_def a b e Let_def using c d by simp
qed

lemma strptime_quoted: "p \<in> set date_patterns \<Longrightarrow> \<not> strptime_ok (quoted w) p"
  by (auto simp add: date_patterns_def strptime_ok_def re_match_def re_at_def quoted_def
      directive_def cat_def alts_def is_digit_def sq_def lower_char_def upper_letters_def
      lower_letters_def)

lemma try_date_patterns_iff: "try_date_patterns s ps = (\<exists>p \<in> set ps. strptime_ok s p)"
  by (induction ps) auto

lemma detect_quoted: "detect_value_type (Some (quoted w)) = ''text''"
  by (simp add: detect_value_type_def py_float_ok_quoted try_date_patterns_iff strptime_quoted)




text \<open>
  C7, as the code has it: an absent value is rendered \<open>NULL\<close> whatever the type; a
  string that does not contain \<open>to_date(\<close> in any case, with a type other than \<open>number\<close>
  and \<open>date\<close>, is rendered with its single quotes doubled and in single quotes, and the
  Value Typer then classifies that literal as \<open>text\<close>; \<open>O'Brien\<close> gives \<open>'O''Brien'\<close>.
\<close>

theorem format_value_null_and_text:
  "format_value VNone t = ''NULL'' \<and>
   (\<not> py_in ''to_date('' (py_lower s) \<and> t \<noteq> ''number'' \<and> t \<noteq> ''date'' \<longrightarrow>
      format_value (VStr s) t = quoted (py_replace s [sq] [sq, sq]) \<and>
      detect_value_type (Some (format_value (VStr s) t)) = ''text'') \<and>
   format_value (VStr ''O'Brien'') ''text'' = sq # ''O'' @ [sq, sq] @ ''Brien'' @ [sq] \<and>
   detect_value_type (Some (format_value (VStr ''O'Brien'') ''text'')) = ''text''"
proof -
  have a: "format_value (VStr ''O'Brien'') ''text'' = sq # ''O'' @ [sq, sq] @ ''Brien'' @ [sq]"
    by code_simp
  have b: "detect_value_type (Some (format_value (VStr ''O'Brien'') ''text'')) = ''text''"
    by code_simp
  show ?thesis using a b
    by (simp add: format_value_def detect_quoted)
qed

theorem format_value_null_and_text_witness:
  "\<not> py_in ''to_date('' (py_lower ''it's'') \<and> ''text'' \<noteq> ''number'' \<and> ''text'' \<noteq> ''date'' \<and>
   format_value VNone ''text'' = ''NULL'' \<and>
   format_value (VStr ''it's'') ''text'' = sq # ''it'' @ [sq, sq] @ ''s'' @ [sq] \<and>
   detect_value_type (Some (format_value (VStr ''it's'') ''text'')) = ''text''"
proof -
  have a: "\<not> py_in ''to_date('' (py_lower ''it's'')" by code_simp
  have b: "quoted (py_replace ''it's'' [sq] [sq, sq]) = sq # ''it'' @ [sq, sq] @ ''s'' @ [sq]"
    by code_simp
  have q: "''text'' \<noteq> ''number''" "''text'' \<noteq> ''date''" by simp_all
  have n: "format_value VNone ''text'' = ''NULL''"
    using format_value_null_and_text [of "''text''" "''it's''"] by blast
  have c: "format_value (VStr ''it's'') ''text'' = quoted (py_replace ''it's'' [sq] [sq, sq])"
    and d: "detect_value_type (Some (format_value (VStr ''it's'') ''text'')) = ''text''"
    using format_value_null_and_text [of "''text''" "''it's''"] a q by blast+
  show ?thesis using a n d c [unfolded b] by simp
qed

text \<open>
  C7 as stated fails: a \<open>text\<close> value that contains \<open>to_date(\<close> is returned as it is,
  without quotes.
\<close>

theorem format_value_text_counterexample:
  "format_value (VStr ''to_date(x)'') ''text'' = ''to_date(x)'' \<and>
   format_value (VStr ''to_date(x)'') ''text'' \<noteq> quoted (py_replace ''to_date(x)'' [sq] [sq, sq])"
  by code_simp




text \<open>
  C10: the empty string is rendered \<open>NULL\<close> when the type is \<open>number\<close> or \<open>date\<close>, and
  as the quoted empty literal for every other type.
\<close>

theorem format_value_empty_string:
  "format_value (VStr []) t = (if t = ''number'' \<or> t = ''date'' then ''NULL'' else [sq, sq])"
  by (simp add: format_value_def startswith_def quoted_def py_replace_def py_lower_def)

theorem format_value_empty_string_witness:
  "format_value (VStr []) ''number'' = ''NULL'' \<and> format_value (VStr []) ''date'' = ''NULL'' \<and>
   format_value (VStr []) ''text'' = [sq, sq]"
  using format_value_empty_string [of "''number''"] format_value_empty_string [of "''date''"]
    format_value_empty_string [of "''text''"]
  by simp

section \<open>Properties of the parser\<close>

lemma parse_condition_id: "parse_condition s i = Some c \<Longrightarrow> c_id c = i"
  by (auto simp: parse_condition_def to_date_condition_def between_handler_def in_handler_def
      is_null_handler_def comparison_handler_def plain_condition_def Let_def
      split: option.splits)

lemma or_step_ids: "ids_ok st \<Longrightarrow> ids_ok (or_step st p)"
  by (auto simp: ids_ok_def or_step_def Let_def parse_condition_id split: option.splits)

lemma foldl_or_step_ids: "ids_ok st \<Longrightarrow> ids_ok (foldl or_step st ps)"
  by (induction ps arbitrary: st) (auto simp: or_step_ids)

lemma and_step_ids: "ids_ok st \<Longrightarrow> ids_ok (and_step st p)"
  by (simp add: and_step_def foldl_or_step_ids)

lemma foldl_and_step_ids: "ids_ok st \<Longrightarrow> ids_ok (foldl and_step st ps)"
  by (induction ps arbitrary: st) (auto simp: and_step_ids)

lemma ids_ok_length: "ids_ok st \<Longrightarrow> map c_id (fst st) = [0..<length (fst st)]"
proof -
  assume h: "ids_ok st"
  then have "length (map c_id (fst st)) = length [0..<snd st]" by (simp add: ids_ok_def)
  then have "length (fst st) = snd st" by simp
  with h show ?thesis by (simp add: ids_ok_def)
qed

lemma generic_conditions_ids:
  "map c_id (generic_conditions w) = [0..<length (generic_conditions w)]"
proof -
  have "ids_ok ([], 0)" by (simp add: ids_ok_def)
  then have "ids_ok (foldl and_step ([], 0) (re_split True and_separator w))"
    by (rule foldl_and_step_ids)
  then show ?thesis unfolding generic_conditions_def by (rule ids_ok_length)
qed

lemma renumber_ids: "map c_id (renumber cs) = [1..<Suc (length cs)]"
proof -
  have "map c_id (renumber cs) = map (\<lambda>p. Suc (fst p)) (enumerate 0 cs)"
    by (simp add: renumber_def case_prod_unfold)
  also have "\<dots> = map Suc (map fst (enumerate 0 cs))"
    by (simp only: map_map comp_def)
  also have "\<dots> = map Suc [0..<length cs]" by (simp only: map_fst_enumerate) simp
  also have "\<dots> = [1..<Suc (length cs)]" by (simp only: map_Suc_upt) simp
  finally show ?thesis .
qed

lemma renumber_length: "length (renumber cs) = length cs"
  by (simp add: renumber_def)

lemma extract_conditions_ids:
  "map c_id (extract_conditions w q) = [0..<length (extract_conditions w q)]"
proof (cases "re_search True to_date_pattern (strip_where_keyword w)")
  case None
  then show ?thesis by (simp add: extract_conditions.simps generic_conditions_ids)
next
  case (Some m)
  define rest where
    "rest = extract_conditions
       (strip_connector (py_replace (strip_where_keyword w) (m_text m) [])) q"
  define tail where
    "tail = (if py_strip (py_replace (strip_where_keyword w) (m_text m) []) \<noteq> []
             then renumber rest else [])"
  have e: "extract_conditions w q = to_date_condition 0 m (m_text m) # tail"
    using Some by (simp add: extract_conditions.simps [of w q] Let_def tail_def rest_def)
  have t: "map c_id tail = [1..<Suc (length tail)]"
  proof (cases "py_strip (py_replace (strip_where_keyword w) (m_text m) []) \<noteq> []")
    case True
    then have "tail = renumber rest" by (simp add: tail_def)
    then show ?thesis by (simp only: renumber_ids renumber_length)
  next
    case False
    then have "tail = []" by (simp add: tail_def)
    then show ?thesis by simp
  qed
  have c: "c_id (to_date_condition 0 m (m_text m)) = 0"
    by (simp add: to_date_condition_def Let_def)
  have "[0..<Suc (Suc (length tail))] = 0 # [1..<Suc (Suc (length tail))]"
    by (simp only: upt_conv_Cons) simp
  moreover have "[1..<Suc (Suc (length tail))] = [1..<Suc (length tail)] @ [Suc (length tail)]"
    by simp
  ultimately show ?thesis using e t c
    by (simp add: upt_conv_Cons)
qed

text \<open>
  C9: the ids of the conditions that the parser returns are 0, 1, 2, ... in list order,
  for \<open>extract_conditions\<close> on any clause (with or without the \<open>to_date\<close> idiom, with
  or without fragments that are dropped) and so for \<open>parse_sql_query\<close>.
\<close>

theorem parser_ids_contiguous:
  "map c_id (extract_conditions w q) = [0..<length (extract_conditions w q)] \<and>
   (parse_sql_query fmt prs query = Inr cs \<longrightarrow> map c_id cs = [0..<length cs])"
  by (auto simp: extract_conditions_ids parse_sql_query_def parse_sql_query_body_def
      split: sum.splits list.splits)

lemma example_clause_parsed:
  "map (\<lambda>c. (c_id c, c_field c, c_operator c)) (extract_conditions example_clause q) =
     [(0, ''col'', ''BETWEEN''), (1, ''x'', ''>=''), (2, ''q'', ''='')]"
  by code_simp

theorem parser_ids_contiguous_witness:
  "parse_sql_query Inr (\<lambda>q. Inr [example_statement]) ''q''
     = Inr (extract_conditions example_clause ''q'') \<and>
   map c_id (extract_conditions example_clause ''q'') = [0, 1, 2]"
proof -
  have a: "parse_sql_query Inr (\<lambda>q. Inr [example_statement]) ''q''
     = Inr (extract_conditions example_clause ''q'')"
    by (simp add: parse_sql_query_def parse_sql_query_body_def example_statement_def)
  have "length (map (\<lambda>c. (c_id c, c_field c, c_operator c))
      (extract_conditions example_clause ''q'')) = 3"
    by (simp only: example_clause_parsed) simp
  then have b: "length (extract_conditions example_clause ''q'') = 3" by simp
  have "[0..<3] = [0, 1, 2::nat]" by (simp add: upt_rec)
  with parser_ids_contiguous [of example_clause "''q''" Inr "\<lambda>q. Inr [example_statement]" "''q''"
      "extract_conditions example_clause ''q''"] a b
  show ?thesis by simp
qed

text \<open>
  C2: \<open>parse_sql_query\<close> returns a list for every query and whatever the library does;
  the list is empty when the library raises, when it finds no statement, and when the
  first statement has no \<open>WHERE\<close> clause.
\<close>

theorem parse_sql_query_never_raises:
  "(\<exists>cs. parse_sql_query fmt prs query = Inr cs) \<and>
   (fmt query = Inl e \<longrightarrow> parse_sql_query fmt prs query = Inr []) \<and>
   (fmt query = Inr fq \<and> prs fq = Inl e \<longrightarrow> parse_sql_query fmt prs query = Inr []) \<and>
   (fmt query = Inr fq \<and> prs fq = Inr [] \<longrightarrow> parse_sql_query fmt prs query = Inr []) \<and>
   (fmt query = Inr fq \<and> prs fq = Inr (stmt # others) \<and> find_where_tokens stmt = [] \<longrightarrow>
      parse_sql_query fmt prs query = Inr [])"
  by (auto simp: parse_sql_query_def parse_sql_query_body_def split: sum.splits list.splits)

theorem parse_sql_query_never_raises_witness:
  "find_where_tokens no_where_statement = [] \<and>
   parse_sql_query Inr (\<lambda>q. Inr [no_where_statement]) ''SELECT * FROM t'' = Inr [] \<and>
   parse_sql_query (\<lambda>q. Inl (Exn ''boom'')) (\<lambda>q. Inr [no_where_statement]) ''SELECT'' = Inr [] \<and>
   parse_sql_query Inr (\<lambda>q. Inl (Exn ''boom'')) ''SELECT ((('' = Inr [] \<and>
   parse_sql_query Inr (\<lambda>q. Inr []) '''' = Inr []"
proof -
  have a: "find_where_tokens no_where_statement = []" by (simp add: no_where_statement_def)
  have e: "(Inr :: string \<Rightarrow> exn + string) q = Inr q" for q by simp
  show ?thesis
    using a
      parse_sql_query_never_raises [of Inr "\<lambda>q. Inr [no_where_statement]" "''SELECT * FROM t''"
        "Exn ''boom''" "''SELECT * FROM t''" no_where_statement "[]"]
      parse_sql_query_never_raises [of "\<lambda>q. Inl (Exn ''boom'')" "\<lambda>q. Inr [no_where_statement]"
        "''SELECT''" "Exn ''boom''" "''SELECT''" no_where_statement "[]"]
      parse_sql_query_never_raises [of Inr "\<lambda>q. Inl (Exn ''boom'')" "''SELECT (((''"
        "Exn ''boom''" "''SELECT (((''" no_where_statement "[]"]
      parse_sql_query_never_raises [of Inr "\<lambda>q. Inr []" "''''" "Exn ''boom''" "''''"
        no_where_statement "[]"]
    by simp
qed

section \<open>Properties of the Reconstructor\<close>

text \<open>
  C3: \<open>reconstruct_sql_query\<close> returns a string for every query and every list of
  conditions. The primary path raises only when the library's \<open>format\<close> raises; then
  the result is what the fallback returns, and the original query when the fallback
  raises too.
\<close>

theorem reconstruct_sql_query_never_raises:
  "(\<exists>r. reconstruct_sql_query fmt tmpl q cs = Inr r) \<and>
   (reconstruct_primary fmt q cs = Inr r1 \<longrightarrow> reconstruct_sql_query fmt tmpl q cs = Inr r1) \<and>
   (reconstruct_primary fmt q cs = Inl e \<and> reconstruct_fallback tmpl q cs = Inr r2 \<longrightarrow>
      reconstruct_sql_query fmt tmpl q cs = Inr r2) \<and>
   (reconstruct_primary fmt q cs = Inl e \<and> reconstruct_fallback tmpl q cs = Inl e2 \<longrightarrow>
      reconstruct_sql_query fmt tmpl q cs = Inr q) \<and>
   ((\<exists>e. reconstruct_primary fmt q cs = Inl e) = (\<exists>e. fmt q = Inl e))"
  by (auto simp: reconstruct_sql_query_def reconstruct_primary_def Let_def
      split: sum.splits option.splits)

theorem reconstruct_sql_query_never_raises_witness:
  "reconstruct_primary (\<lambda>q. Inl (Exn ''format'')) ''SELECT * FROM t WHERE a = 1 LIMIT 5'' edited
     = Inl (Exn ''format'') \<and>
   reconstruct_fallback (\<lambda>t. Inl (Exn ''bad escape'')) ''SELECT * FROM t WHERE a = 1 LIMIT 5'' edited
     = Inl (Exn ''bad escape'') \<and>
   reconstruct_sql_query (\<lambda>q. Inl (Exn ''format'')) (\<lambda>t. Inl (Exn ''bad escape''))
     ''SELECT * FROM t WHERE a = 1 LIMIT 5'' edited = Inr ''SELECT * FROM t WHERE a = 1 LIMIT 5'' \<and>
   reconstruct_fallback (\<lambda>t. Inr (\<lambda>m. grp m 1 @ ''a = 2'' @ grp m 2))
     ''SELECT * FROM t WHERE a = 1 LIMIT 5'' edited = Inr ''SELECT * FROM t WHERE a = 2 LIMIT 5'' \<and>
   reconstruct_sql_query (\<lambda>q. Inl (Exn ''format'')) (\<lambda>t. Inr (\<lambda>m. grp m 1 @ ''a = 2'' @ grp m 2))
     ''SELECT * FROM t WHERE a = 1 LIMIT 5'' edited = Inr ''SELECT * FROM t WHERE a = 2 LIMIT 5'' \<and>
   reconstruct_primary Inr ''SELECT * FROM t WHERE a = 1'' edited = Inr ''SELECT * FROM t WHERE a = 2'' \<and>
   reconstruct_sql_query Inr (\<lambda>t. Inl (Exn ''bad escape'')) ''SELECT * FROM t WHERE a = 1'' edited
     = Inr ''SELECT * FROM t WHERE a = 2''"
proof -
  have a: "reconstruct_primary (\<lambda>q. Inl (Exn ''format'')) ''SELECT * FROM t WHERE a = 1 LIMIT 5''
      edited = Inl (Exn ''format'')"
    by (simp add: reconstruct_primary_def)
  have b: "reconstruct_fallback (\<lambda>t. Inl (Exn ''bad escape''))
      ''SELECT * FROM t WHERE a = 1 LIMIT 5'' edited = Inl (Exn ''bad escape'')"
    by (simp add: reconstruct_fallback_def re_sub_def Let_def)
  have c: "reconstruct_fallback (\<lambda>t. Inr (\<lambda>m. grp m 1 @ ''a = 2'' @ grp m 2))
     ''SELECT * FROM t WHERE a = 1 LIMIT 5'' edited = Inr ''SELECT * FROM t WHERE a = 2 LIMIT 5''"
    by code_simp
  have d: "reconstruct_primary Inr ''SELECT * FROM t WHERE a = 1'' edited
     = Inr ''SELECT * FROM t WHERE a = 2''"
    by code_simp
  show ?thesis
    using a b c d
      reconstruct_sql_query_never_raises [of "\<lambda>q. Inl (Exn ''format'')"
        "\<lambda>t. Inl (Exn ''bad escape'')" "''SELECT * FROM t WHERE a = 1 LIMIT 5''" edited
        "[]" "Exn ''format''" "[]" "Exn ''bad escape''"]
      reconstruct_sql_query_never_raises [of "\<lambda>q. Inl (Exn ''format'')"
        "\<lambda>t. Inr (\<lambda>m. grp m 1 @ ''a = 2'' @ grp m 2)" "''SELECT * FROM t WHERE a = 1 LIMIT 5''"
        edited "[]" "Exn ''format''" "''SELECT * FROM t WHERE a = 2 LIMIT 5''" "Exn ''x''"]
      reconstruct_sql_query_never_raises [of Inr "\<lambda>t. Inl (Exn ''bad escape'')"
        "''SELECT * FROM t WHERE a = 1''" edited "''SELECT * FROM t WHERE a = 2''"
        "Exn ''format''" "[]" "Exn ''x''"]
    by simp
qed

text \<open>
  C4 fails on the code: with two occurrences of \<open>WHERE\<close> the primary path splits the
  statement at the last one, not at the first, because the first group of its pattern
  is greedy. (\<open>parse_sql_query\<close> reads the first \<open>WHERE\<close> clause.)
\<close>

theorem reconstruct_primary_splits_at_last_where:
  "reconstruct_primary Inr ''SELECT * FROM t WHERE a IN (SELECT x FROM u WHERE y = 1)'' edited
     = Inr ''SELECT * FROM t WHERE a IN (SELECT x FROM u WHERE a = 2'' \<and>
   reconstruct_primary Inr ''SELECT * FROM t WHERE a IN (SELECT x FROM u WHERE y = 1)'' edited
     \<noteq> Inr (''SELECT * FROM t'' @ '' WHERE '' @ construct_where_clause edited)"
  by code_simp

section \<open>Facts about the matching engine\<close>

















































section \<open>A comparison through the matcher and the reconstructor\<close>















section \<open>Splitting a clause on its connectors\<close>































section \<open>Clauses without the \<open>to_date\<close> idiom and without the keyword\<close>















section \<open>Literals through the Value Typer and the Value Formatter\<close>





















section \<open>Supported fragments\<close>



























section \<open>The \<open>to_date\<close> idiom through the parser\<close>









































section \<open>The round trip on supported clauses\<close>






end
